theory Spec2Isabelle
  imports Complex_Main "HOL-Library.Multiset"
begin

section \<open>Data model (shared/schema.ts)\<close>

text \<open>
  The tables of \<^verbatim>\<open>shared/schema.ts\<close> as records, one list of rows per table.
  Timestamps are integers (milliseconds since the epoch) with no upper or lower bound,
  so the range of \<^verbatim>\<open>Date\<close> and of the \<^verbatim>\<open>timestamp\<close> column is not part of the model.
  Column names are the source's; \<^verbatim>\<open>id\<close>, and the names that several tables share, carry
  a letter for their table (\<open>idD\<close>, \<open>statusC\<close>, \<open>statusI\<close>, ...).
  The \<^verbatim>\<open>users\<close> table is not modelled: every user id is taken to name a user.
\<close>

type_synonym timestamp = int

record deposit =
  idD :: string
  content :: string
  emotion :: "string option"
  mediaUri :: "string option"
  mediaType :: "string option"
  tags :: "string list option"
  lastSurfacedAt :: "timestamp option"
  status :: int
  createdAt :: timestamp

text \<open>\<^verbatim>\<open>sharedDeposits\<close> has the columns of \<^verbatim>\<open>deposits\<close> and two more.\<close>

record shared_deposit = deposit +
  senderId :: string
  receiverId :: string

record connection =
  idC :: string
  userId :: string
  connectedUserId :: string
  statusC :: string
  createdAtC :: timestamp
  acceptedAt :: "timestamp option"

record circle_invite =
  idI :: string
  senderIdI :: string
  inviteType :: string
  inviteValue :: "string option"
  inviteCode :: string
  statusI :: string
  createdAtI :: timestamp
  expiresAt :: "timestamp option"

record shared_deposit_usage =
  idU :: string
  sharedDepositId :: string
  usedAt :: timestamp
  helpful :: "bool option"

record db =
  deposits :: "deposit list"
  connections :: "connection list"
  circleInvites :: "circle_invite list"
  sharedDeposits :: "shared_deposit list"
  sharedDepositUsage :: "shared_deposit_usage list"

definition empty_db :: db where
  "empty_db = \<lparr>deposits = [], connections = [], circleInvites = [],
     sharedDeposits = [], sharedDepositUsage = []\<rparr>"

section \<open>Requests and responses\<close>

text \<open>
  A property of a request body that the handler reads with a known type:
  \<^verbatim>\<open>undefined\<close> (\<open>Absent\<close>), \<^verbatim>\<open>null\<close> or a value.
\<close>

datatype 'a field = Absent | Null | Val 'a

text \<open>
  A property the handler tests with \<^verbatim>\<open>typeof\<close>: any JSON value. \<open>JObject\<close> stands for
  objects and arrays alike (\<^verbatim>\<open>typeof\<close> "object").
\<close>

datatype json = JUndefined | JNull | JBool bool | JNum rat | JStr string | JObject

text \<open>The error responses: 400, 403, 404 and the 500 of each handler's \<^verbatim>\<open>catch\<close>.\<close>

datatype error = BadRequest string | Forbidden string | NotFound string | ServerError string

text \<open>The body accepted by \<^verbatim>\<open>insertDepositSchema\<close> (the table without id and createdAt).\<close>

record insert_deposit =
  contentIn :: "string field"
  emotionIn :: "string field"
  mediaUriIn :: "string field"
  mediaTypeIn :: "string field"
  tagsIn :: "string list field"
  lastSurfacedAtIn :: "timestamp field"
  statusIn :: "int field"

text \<open>The body accepted by \<^verbatim>\<open>insertSharedDepositSchema\<close> (without id, createdAt, lastSurfacedAt).\<close>

record insert_shared_deposit =
  senderIdS :: "string field"
  receiverIdS :: "string field"
  contentS :: "string field"
  emotionS :: "string field"
  mediaUriS :: "string field"
  mediaTypeS :: "string field"
  tagsS :: "string list field"
  statusS :: "int field"

text \<open>The three properties \<^verbatim>\<open>PATCH /api/deposits/:id\<close> reads from the body.\<close>

record deposit_patch =
  contentP :: "string field"
  emotionP :: "string field"
  tagsP :: "string list field"

section \<open>Database statements\<close>

text \<open>
  \<^verbatim>\<open>UPDATE t SET ... WHERE p RETURNING *\<close>: the table after the statement, and the rows
  it returns (the matching rows, updated).
\<close>

definition sql_update :: "('r \<Rightarrow> bool) \<Rightarrow> ('r \<Rightarrow> 'r) \<Rightarrow> 'r list \<Rightarrow> 'r list \<times> 'r list" where
  "sql_update p f rows = (map (\<lambda>r. if p r then f r else r) rows, map f (filter p rows))"

text \<open>A nullable column: an absent or null property is stored as NULL.\<close>

fun nullable :: "'a field \<Rightarrow> 'a option" where
  "nullable (Val x) = Some x"
| "nullable Null = None"
| "nullable Absent = None"

text \<open>A nullable column with a default: only an absent property takes the default.\<close>

fun with_default :: "'a \<Rightarrow> 'a field \<Rightarrow> 'a option" where
  "with_default d (Val x) = Some x"
| "with_default d Null = None"
| "with_default d Absent = Some d"

text \<open>The \<^verbatim>\<open>integer\<close> column holds 32-bit integers; any other number is refused.\<close>

definition is_int32 :: "rat \<Rightarrow> bool" where
  "is_int32 q \<longleftrightarrow> of_int \<lfloor>q\<rfloor> = q \<and> - 2147483648 \<le> q \<and> q \<le> 2147483647"

section \<open>Deposit store (server/routes.ts)\<close>

text \<open>\<^verbatim>\<open>GET /api/deposits\<close>: \<^verbatim>\<open>orderBy(desc(createdAt))\<close>, with \<^verbatim>\<open>ne(status, -1)\<close> unless
  inactive deposits are asked for.\<close>

definition list_deposits :: "bool \<Rightarrow> db \<Rightarrow> deposit list" where
  "list_deposits includeInactive st =
     (if includeInactive then sort_key (\<lambda>d. - createdAt d) (deposits st)
      else sort_key (\<lambda>d. - createdAt d) (filter (\<lambda>d. status d \<noteq> - 1) (deposits st)))"

definition get_deposits :: "string option \<Rightarrow> db \<Rightarrow> deposit list" where
  "get_deposits includeInactiveParam st = list_deposits (includeInactiveParam = Some ''true'') st"

text \<open>\<^verbatim>\<open>insertDepositSchema.safeParse\<close>: content is required; status has a default and is
  not nullable; the other columns are nullable and optional.\<close>

definition insertDepositSchema :: "insert_deposit \<Rightarrow> bool" where
  "insertDepositSchema body \<longleftrightarrow>
     (case contentIn body of Val c \<Rightarrow> statusIn body \<noteq> Null | _ \<Rightarrow> False)"

text \<open>\<^verbatim>\<open>POST /api/deposits\<close>. \<open>newId\<close> and \<open>now\<close> are what \<^verbatim>\<open>gen_random_uuid()\<close> and
  \<^verbatim>\<open>defaultNow()\<close> give the new row.\<close>

definition create :: "insert_deposit \<Rightarrow> string \<Rightarrow> timestamp \<Rightarrow> db \<Rightarrow> (error + deposit) \<times> db" where
  "create body newId now st =
     (case contentIn body of
        Val c \<Rightarrow>
          if statusIn body = Null then (Inl (BadRequest ''Invalid deposit data''), st)
          else
            (let newDeposit =
               \<lparr>idD = newId, content = c, emotion = nullable (emotionIn body),
                mediaUri = nullable (mediaUriIn body), mediaType = nullable (mediaTypeIn body),
                tags = with_default [] (tagsIn body),
                lastSurfacedAt = nullable (lastSurfacedAtIn body),
                status = 0, createdAt = now\<rparr>
             in (Inr newDeposit, st\<lparr>deposits := deposits st @ [newDeposit]\<rparr>))
      | _ \<Rightarrow> (Inl (BadRequest ''Invalid deposit data''), st))"

text \<open>\<^verbatim>\<open>excludeParam.split(",")\<close>.\<close>

fun split_comma :: "string \<Rightarrow> string list" where
  "split_comma [] = [[]]"
| "split_comma (c # cs) =
     (if c = CHR '','' then [] # split_comma cs
      else (case split_comma cs of [] \<Rightarrow> [[c]] | w # ws \<Rightarrow> (c # w) # ws))"

text \<open>\<^verbatim>\<open>excludeParam ? excludeParam.split(",").filter(Boolean) : []\<close>: the empty string is
  falsy, as a parameter and as a piece.\<close>

definition parse_exclude :: "string option \<Rightarrow> string list" where
  "parse_exclude excludeParam =
     (case excludeParam of
        None \<Rightarrow> []
      | Some s \<Rightarrow> if s = [] then [] else filter (\<lambda>w. w \<noteq> []) (split_comma s))"

text \<open>The two queries of \<^verbatim>\<open>GET /api/deposits/surface\<close>.\<close>

definition eligibleDeposits :: "string list \<Rightarrow> db \<Rightarrow> deposit list" where
  "eligibleDeposits excludeIds st =
     (if length excludeIds > 0
      then filter (\<lambda>d. status d = 0 \<and> idD d \<notin> set excludeIds) (deposits st)
      else filter (\<lambda>d. status d = 0) (deposits st))"

text \<open>
  \<^verbatim>\<open>xs[Math.floor(Math.random() * xs.length)]\<close>, where \<open>r\<close> is the value of
  \<^verbatim>\<open>Math.random()\<close>, a number with \<open>0 \<le> r < 1\<close>. For such \<open>r\<close> the index is in range;
  an index out of range would read \<^verbatim>\<open>undefined\<close>, which is \<open>None\<close> here.
\<close>

definition random_pick :: "real \<Rightarrow> 'a list \<Rightarrow> 'a option" where
  "random_pick r xs =
     (let i = \<lfloor>r * real (length xs)\<rfloor>
      in if 0 \<le> i \<and> i < int (length xs) then Some (xs ! nat i) else None)"

definition surface :: "string list \<Rightarrow> real \<Rightarrow> db \<Rightarrow> deposit option" where
  "surface excludeIds r st =
     (let eligible = eligibleDeposits excludeIds st
      in if length eligible = 0 then None else random_pick r eligible)"

definition get_surface :: "string option \<Rightarrow> real \<Rightarrow> db \<Rightarrow> deposit option" where
  "get_surface excludeParam r st = surface (parse_exclude excludeParam) r st"

text \<open>The assignments of \<^verbatim>\<open>updateData\<close> on one row: a property that is not
  \<^verbatim>\<open>undefined\<close> is set, \<^verbatim>\<open>null\<close> included; only content, a \<^verbatim>\<open>notNull()\<close> column, is
  never written as null (\<open>update\<close> below fails before it writes).\<close>

definition apply_patch :: "deposit_patch \<Rightarrow> deposit \<Rightarrow> deposit" where
  "apply_patch body d =
     (let d1 = (case contentP body of Val c \<Rightarrow> d\<lparr>content := c\<rparr> | _ \<Rightarrow> d);
          d2 = (case emotionP body of Absent \<Rightarrow> d1 | e \<Rightarrow> d1\<lparr>emotion := nullable e\<rparr>);
          d3 = (case tagsP body of Absent \<Rightarrow> d2 | t \<Rightarrow> d2\<lparr>tags := nullable t\<rparr>)
      in d3)"

text \<open>
  \<^verbatim>\<open>PATCH /api/deposits/:id\<close>. An \<^verbatim>\<open>updateData\<close> without any property asks for an
  UPDATE without a single assignment; there is no such SQL statement, the call throws and
  the \<^verbatim>\<open>catch\<close> answers 500. \<^verbatim>\<open>content: null\<close> on a matching row violates the
  column's \<^verbatim>\<open>notNull()\<close> and is answered 500 as well. In both cases no row is written.
\<close>

definition update :: "string \<Rightarrow> deposit_patch \<Rightarrow> db \<Rightarrow> (error + deposit) \<times> db" where
  "update i body st =
     (if contentP body = Absent \<and> emotionP body = Absent \<and> tagsP body = Absent
      then (Inl (ServerError ''Failed to update deposit''), st)
      else if contentP body = Null \<and> filter (\<lambda>d. idD d = i) (deposits st) \<noteq> []
      then (Inl (ServerError ''Failed to update deposit''), st)
      else
        (case sql_update (\<lambda>d. idD d = i) (apply_patch body) (deposits st) of
           (rows, []) \<Rightarrow> (Inl (NotFound ''Deposit not found''), st\<lparr>deposits := rows\<rparr>)
         | (rows, updated # _) \<Rightarrow> (Inr updated, st\<lparr>deposits := rows\<rparr>)))"

text \<open>
  \<^verbatim>\<open>PATCH /api/deposits/:id/status\<close>. The only check of the handler is
  \<^verbatim>\<open>typeof status !== "number"\<close>; a number that the \<^verbatim>\<open>integer\<close> column cannot hold
  fails in the database (500).
\<close>

definition setStatus :: "string \<Rightarrow> json \<Rightarrow> db \<Rightarrow> (error + deposit) \<times> db" where
  "setStatus i v st =
     (case v of
        JNum q \<Rightarrow>
          if \<not> is_int32 q then (Inl (ServerError ''Failed to update deposit status''), st)
          else
            (case sql_update (\<lambda>d. idD d = i) (\<lambda>d. d\<lparr>status := \<lfloor>q\<rfloor>\<rparr>) (deposits st) of
               (rows, []) \<Rightarrow> (Inl (NotFound ''Deposit not found''), st\<lparr>deposits := rows\<rparr>)
             | (rows, updated # _) \<Rightarrow> (Inr updated, st\<lparr>deposits := rows\<rparr>))
      | _ \<Rightarrow> (Inl (BadRequest ''Status must be a number''), st))"

text \<open>\<^verbatim>\<open>DELETE /api/deposits/:id\<close>: \<^verbatim>\<open>set({ status: -1 })\<close>; the answer is \<^verbatim>\<open>{ success: true }\<close>.\<close>

definition softDelete :: "string \<Rightarrow> db \<Rightarrow> (error + bool) \<times> db" where
  "softDelete i st =
     (case sql_update (\<lambda>d. idD d = i) (\<lambda>d. d\<lparr>status := - 1\<rparr>) (deposits st) of
        (rows, []) \<Rightarrow> (Inl (NotFound ''Deposit not found''), st\<lparr>deposits := rows\<rparr>)
      | (rows, updated # _) \<Rightarrow> (Inr True, st\<lparr>deposits := rows\<rparr>))"

text \<open>\<^verbatim>\<open>PATCH /api/deposits/:id/surface\<close>: \<^verbatim>\<open>set({ lastSurfacedAt: new Date(), status: 30 })\<close>.\<close>

definition markSurfaced :: "string \<Rightarrow> timestamp \<Rightarrow> db \<Rightarrow> (error + deposit) \<times> db" where
  "markSurfaced i now st =
     (case sql_update (\<lambda>d. idD d = i) (\<lambda>d. d\<lparr>lastSurfacedAt := Some now, status := 30\<rparr>)
             (deposits st) of
        (rows, []) \<Rightarrow> (Inl (NotFound ''Deposit not found''), st\<lparr>deposits := rows\<rparr>)
      | (rows, updated # _) \<Rightarrow> (Inr updated, st\<lparr>deposits := rows\<rparr>))"

text \<open>
  The operations of the deposit store as commands, and a run of them. \<open>Surface\<close> only
  selects, so it leaves the store as it is.
\<close>

datatype op =
    Create insert_deposit string timestamp
  | Update string deposit_patch
  | SetStatus string json
  | SoftDelete string
  | MarkSurfaced string timestamp
  | Surface "string option" real

fun step :: "op \<Rightarrow> db \<Rightarrow> db" where
  "step (Create body newId now) st = snd (create body newId now st)"
| "step (Update i body) st = snd (update i body st)"
| "step (SetStatus i v) st = snd (setStatus i v st)"
| "step (SoftDelete i) st = snd (softDelete i st)"
| "step (MarkSurfaced i now) st = snd (markSurfaced i now st)"
| "step (Surface excludeParam r) st = st"

definition run :: "op list \<Rightarrow> db \<Rightarrow> db" where
  "run ops st = foldl (\<lambda>s c. step c s) st ops"

text \<open>The set of the status invariant: \<open>{-1} \<union> {0} \<union>\<close> the positive integers.\<close>

definition valid_status :: "int \<Rightarrow> bool" where
  "valid_status n \<longleftrightarrow> n = - 1 \<or> n = 0 \<or> 0 < n"

definition status_inv :: "db \<Rightarrow> bool" where
  "status_inv st \<longleftrightarrow> list_all (\<lambda>d. valid_status (status d)) (deposits st)"

text \<open>A command that is not a set-status with a number outside the set.\<close>

fun in_range_op :: "op \<Rightarrow> bool" where
  "in_range_op (SetStatus i (JNum q)) = valid_status \<lfloor>q\<rfloor>"
| "in_range_op _ = True"

section \<open>Circle: connections, shared deposits, sender summary (server/routes.ts)\<close>






text \<open>\<^verbatim>\<open>insertSharedDepositSchema.safeParse\<close>: sender, receiver and content are required.\<close>

definition insertSharedDepositSchema :: "insert_shared_deposit \<Rightarrow> bool" where
  "insertSharedDepositSchema body \<longleftrightarrow>
     (case (senderIdS body, receiverIdS body, contentS body) of
        (Val s, Val r, Val c) \<Rightarrow> statusS body \<noteq> Null
      | _ \<Rightarrow> False)"

text \<open>The connection that \<^verbatim>\<open>POST /api/circle/shared-deposits\<close> looks for.\<close>

definition accepted_connections :: "string \<Rightarrow> string \<Rightarrow> db \<Rightarrow> connection list" where
  "accepted_connections s r st =
     filter (\<lambda>c. userId c = s \<and> connectedUserId c = r \<and> statusC c = ''accepted'') (connections st)"

text \<open>\<^verbatim>\<open>POST /api/circle/shared-deposits\<close>.\<close>

definition share ::
  "insert_shared_deposit \<Rightarrow> string \<Rightarrow> timestamp \<Rightarrow> db \<Rightarrow> (error + shared_deposit) \<times> db" where
  "share body newId now st =
     (case (senderIdS body, receiverIdS body, contentS body) of
        (Val s, Val r, Val c) \<Rightarrow>
          if statusS body = Null then (Inl (BadRequest ''Invalid shared deposit data''), st)
          else
            (case accepted_connections s r st of
               [] \<Rightarrow> (Inl (Forbidden ''Not connected to this user''), st)
             | connection # _ \<Rightarrow>
                 (let sharedDeposit =
                        \<lparr>idD = newId, content = c, emotion = nullable (emotionS body),
                         mediaUri = nullable (mediaUriS body),
                         mediaType = nullable (mediaTypeS body),
                         tags = with_default [] (tagsS body), lastSurfacedAt = None,
                         status = 0, createdAt = now, senderId = s, receiverId = r\<rparr>
                  in (Inr sharedDeposit,
                      st\<lparr>sharedDeposits := sharedDeposits st @ [sharedDeposit]\<rparr>)))
      | _ \<Rightarrow> (Inl (BadRequest ''Invalid shared deposit data''), st))"

record summary =
  totalUses :: nat
  helpfulUses :: nat
  weeks :: int

text \<open>
  The query of \<^verbatim>\<open>GET /api/circle/summary/:userId\<close> for the usage rows. Its condition is
  written \<^verbatim>\<open>sql`${sharedDepositUsage.sharedDepositId} = ANY(${depositIds})`\<close>, and the
  \<^verbatim>\<open>sql\<close> template writes a JavaScript array as a parenthesised list of parameters
  (as it does for \<^verbatim>\<open>IN\<close>), so the statement reads \<^verbatim>\<open>= ANY(($1, ..., $n))\<close>. With two or
  more ids the operand is a row where \<^verbatim>\<open>ANY\<close> needs an array; with one id it is a text
  parameter that the database reads as an array literal, which an id (a uuid of
  \<^verbatim>\<open>gen_random_uuid()\<close>) is not. The list is not empty when the query is reached, so the
  statement is refused for every list it is given: \<open>None\<close>.
\<close>

definition usages_query ::
  "string list \<Rightarrow> timestamp \<Rightarrow> db \<Rightarrow> shared_deposit_usage list option" where
  "usages_query depositIds cutoffDate st = None"

text \<open>
  \<^verbatim>\<open>GET /api/circle/summary/:userId\<close> after the parameter is read: \<open>weeksBack\<close> is the value
  of \<^verbatim>\<open>parseInt(req.query.weeks as string) || 2\<close>.
  \<^verbatim>\<open>cutoffDate.setDate(cutoffDate.getDate() - weeksBack * 7)\<close> moves the date by whole
  days of 86400000 ms (the server's clock has a fixed offset from UTC). A refused query
  throws, and the \<^verbatim>\<open>catch\<close> answers 500.
\<close>

definition senderSummary :: "string \<Rightarrow> int \<Rightarrow> timestamp \<Rightarrow> db \<Rightarrow> error + summary" where
  "senderSummary uid weeksBack now st =
     (let cutoffDate = now - weeksBack * 7 * 86400000;
          sentDeposits = filter (\<lambda>d. senderId d = uid) (sharedDeposits st);
          depositIds = map idD sentDeposits
      in if length depositIds = 0
         then Inr \<lparr>totalUses = 0, helpfulUses = 0, weeks = weeksBack\<rparr>
         else
           (case usages_query depositIds cutoffDate st of
              None \<Rightarrow> Inl (ServerError ''Failed to get summary'')
            | Some usages \<Rightarrow>
                Inr \<lparr>totalUses = length usages,
                     helpfulUses = length (filter (\<lambda>u. helpful u = Some True) usages),
                     weeks = weeksBack\<rparr>))"

text \<open>
  The summary in the words of its contract, to compare the handler with: the usage rows of
  the shared deposits that \<open>uid\<close> sent, used at or after the cutoff.
\<close>

definition sent_by :: "db \<Rightarrow> string \<Rightarrow> string \<Rightarrow> bool" where
  "sent_by st uid sid \<longleftrightarrow> list_ex (\<lambda>d. idD d = sid \<and> senderId d = uid) (sharedDeposits st)"

definition uses_since :: "db \<Rightarrow> string \<Rightarrow> timestamp \<Rightarrow> shared_deposit_usage list" where
  "uses_since st uid cutoff =
     filter (\<lambda>u. sent_by st uid (sharedDepositId u) \<and> cutoff \<le> usedAt u) (sharedDepositUsage st)"

section \<open>Facts about the database statements\<close>

lemma fst_sql_update: "fst (sql_update p f rows) = map (\<lambda>r. if p r then f r else r) rows"
  by (simp add: sql_update_def)

lemma sql_update_nomatch: "filter p rows = [] \<Longrightarrow> sql_update p f rows = (rows, [])"
  by (induction rows) (auto simp: sql_update_def split: if_splits)

lemma in_sql_update:
  "y \<in> set (fst (sql_update p f rows)) \<Longrightarrow>
     (\<exists>x\<in>set rows. p x \<and> y = f x) \<or> (y \<in> set rows \<and> \<not> p y)"
  by (induction rows) (auto simp: sql_update_def split: if_splits)

lemma sql_update_list_all:
  "list_all P rows \<Longrightarrow> (\<And>r. P r \<Longrightarrow> p r \<Longrightarrow> P (f r)) \<Longrightarrow>
     list_all P (fst (sql_update p f rows))"
  by (induction rows) (auto simp: sql_update_def)

lemma sql_update_list_all2:
  "(\<And>r. R r r) \<Longrightarrow> (\<And>r. p r \<Longrightarrow> R r (f r)) \<Longrightarrow> list_all2 R rows (fst (sql_update p f rows))"
  by (induction rows) (auto simp: sql_update_def)

section \<open>Surfacing\<close>

lemma random_pick_mem:
  assumes "0 \<le> r" "r < 1" "xs \<noteq> []"
  shows "\<exists>x. random_pick r xs = Some x \<and> x \<in> set xs"
proof -
  let ?n = "length xs"
  have n: "0 < real ?n" using assms(3) by simp
  have lo: "0 \<le> r * real ?n" using assms(1) by simp
  have hi: "r * real ?n < real ?n" using assms(2) n by simp
  have "0 \<le> \<lfloor>r * real ?n\<rfloor>" using lo by simp
  moreover have "\<lfloor>r * real ?n\<rfloor> < int ?n" using hi by (simp add: floor_less_iff)
  ultimately show ?thesis
    by (simp add: random_pick_def Let_def nat_less_iff)
qed

lemma random_pick_set: "random_pick r xs = Some x \<Longrightarrow> x \<in> set xs"
  by (auto simp: random_pick_def Let_def nat_less_iff split: if_splits)

lemma eligible_set:
  "set (eligibleDeposits excludeIds st) =
     {d \<in> set (deposits st). status d = 0 \<and> idD d \<notin> set excludeIds}"
  by (auto simp: eligibleDeposits_def)

lemma eligible_nil_upd:
  "eligibleDeposits [] (st\<lparr>deposits := rows\<rparr>) = filter (\<lambda>d. status d = 0) rows"
  by (simp add: eligibleDeposits_def)

lemma surface_Some_eligible:
  "surface excludeIds r st = Some d \<Longrightarrow> d \<in> set (eligibleDeposits excludeIds st)"
  by (auto simp: surface_def Let_def split: if_splits dest: random_pick_set)

lemma surface_None_iff:
  assumes "0 \<le> r" and "r < 1"
  shows "surface excludeIds r st = None \<longleftrightarrow> eligibleDeposits excludeIds st = []"
proof (cases "eligibleDeposits excludeIds st = []")
  case True
  then show ?thesis by (simp add: surface_def)
next
  case False
  from random_pick_mem [OF assms False] obtain x
    where "random_pick r (eligibleDeposits excludeIds st) = Some x" by blast
  with False show ?thesis by (simp add: surface_def)
qed

lemma eligible_empty_iff:
  "eligibleDeposits excludeIds st = [] \<longleftrightarrow>
     \<not> list_ex (\<lambda>d. status d = 0 \<and> idD d \<notin> set excludeIds) (deposits st)"
proof -
  have "eligibleDeposits excludeIds st = [] \<longleftrightarrow> set (eligibleDeposits excludeIds st) = {}"
    by simp
  also have "\<dots> \<longleftrightarrow> \<not> (\<exists>d\<in>set (deposits st). status d = 0 \<and> idD d \<notin> set excludeIds)"
    unfolding eligible_set by blast
  finally show ?thesis by (simp only: list_ex_iff)
qed

lemma surface_Some_props:
  "case surface excludeIds r st of
     None \<Rightarrow> True
   | Some d \<Rightarrow> d \<in> set (deposits st) \<and> status d = 0 \<and> idD d \<notin> set excludeIds"
proof (cases "surface excludeIds r st")
  case None
  then show ?thesis by simp
next
  case (Some d)
  from surface_Some_eligible [OF Some]
  have "d \<in> set (deposits st) \<and> status d = 0 \<and> idD d \<notin> set excludeIds"
    unfolding eligible_set by simp
  with Some show ?thesis by simp
qed

text \<open>
  C2. For every store and every exclusion list, and every value \<open>0 \<le> r < 1\<close> of the random
  source, \<open>surface\<close> answers none exactly when no deposit has status 0 and an id outside
  the list; otherwise it answers a deposit of the store with status 0 and an id outside
  the list. The handler does the same with the ids it reads from the \<^verbatim>\<open>exclude\<close>
  parameter.
\<close>

theorem surface_eligible:
  assumes "0 \<le> r" and "r < 1"
  shows "(surface excludeIds r st = None \<longleftrightarrow>
            \<not> list_ex (\<lambda>d. status d = 0 \<and> idD d \<notin> set excludeIds) (deposits st)) \<and>
         (case surface excludeIds r st of
            None \<Rightarrow> True
          | Some d \<Rightarrow> d \<in> set (deposits st) \<and> status d = 0 \<and> idD d \<notin> set excludeIds) \<and>
         (get_surface excludeParam r st = None \<longleftrightarrow>
            \<not> list_ex (\<lambda>d. status d = 0 \<and> idD d \<notin> set (parse_exclude excludeParam))
                (deposits st)) \<and>
         (case get_surface excludeParam r st of
            None \<Rightarrow> True
          | Some d \<Rightarrow> d \<in> set (deposits st) \<and> status d = 0 \<and>
              idD d \<notin> set (parse_exclude excludeParam))"
proof (intro conjI)
  show "surface excludeIds r st = None \<longleftrightarrow>
          \<not> list_ex (\<lambda>d. status d = 0 \<and> idD d \<notin> set excludeIds) (deposits st)"
    using surface_None_iff [OF assms] eligible_empty_iff by blast
next
  show "case surface excludeIds r st of
          None \<Rightarrow> True
        | Some d \<Rightarrow> d \<in> set (deposits st) \<and> status d = 0 \<and> idD d \<notin> set excludeIds"
    by (rule surface_Some_props)
next
  show "get_surface excludeParam r st = None \<longleftrightarrow>
          \<not> list_ex (\<lambda>d. status d = 0 \<and> idD d \<notin> set (parse_exclude excludeParam))
              (deposits st)"
    unfolding get_surface_def using surface_None_iff [OF assms] eligible_empty_iff by blast
next
  show "case get_surface excludeParam r st of
          None \<Rightarrow> True
        | Some d \<Rightarrow> d \<in> set (deposits st) \<and> status d = 0 \<and>
            idD d \<notin> set (parse_exclude excludeParam)"
    unfolding get_surface_def by (rule surface_Some_props)
qed

text \<open>
  C2, at the store of three deposits with status 0, 5 and -1: with an empty exclusion list
  the first is surfaced; with the first excluded, none is, also when the handler reads the
  exclusion from the parameter "d9,,d1".
\<close>

theorem surface_eligible_witness:
  "(0::real) \<le> 1 / 2 \<and> (1 / 2 :: real) < 1 \<and>
   surface [] (1 / 2)
     (empty_db\<lparr>deposits :=
        [\<lparr>idD = ''d1'', content = ''x'', emotion = None, mediaUri = None, mediaType = None,
          tags = Some [], lastSurfacedAt = None, status = 0, createdAt = 1\<rparr>,
         \<lparr>idD = ''d2'', content = ''y'', emotion = None, mediaUri = None, mediaType = None,
          tags = Some [], lastSurfacedAt = None, status = 5, createdAt = 2\<rparr>,
         \<lparr>idD = ''d3'', content = ''z'', emotion = None, mediaUri = None, mediaType = None,
          tags = Some [], lastSurfacedAt = None, status = - 1, createdAt = 3\<rparr>]\<rparr>)
     = Some \<lparr>idD = ''d1'', content = ''x'', emotion = None, mediaUri = None, mediaType = None,
          tags = Some [], lastSurfacedAt = None, status = 0, createdAt = 1\<rparr> \<and>
   surface [''d1''] (1 / 2)
     (empty_db\<lparr>deposits :=
        [\<lparr>idD = ''d1'', content = ''x'', emotion = None, mediaUri = None, mediaType = None,
          tags = Some [], lastSurfacedAt = None, status = 0, createdAt = 1\<rparr>,
         \<lparr>idD = ''d2'', content = ''y'', emotion = None, mediaUri = None, mediaType = None,
          tags = Some [], lastSurfacedAt = None, status = 5, createdAt = 2\<rparr>,
         \<lparr>idD = ''d3'', content = ''z'', emotion = None, mediaUri = None, mediaType = None,
          tags = Some [], lastSurfacedAt = None, status = - 1, createdAt = 3\<rparr>]\<rparr>)
     = None \<and>
   parse_exclude (Some ''d9,,d1'') = [''d9'', ''d1''] \<and>
   get_surface (Some ''d9,,d1'') (1 / 2)
     (empty_db\<lparr>deposits :=
        [\<lparr>idD = ''d1'', content = ''x'', emotion = None, mediaUri = None, mediaType = None,
          tags = Some [], lastSurfacedAt = None, status = 0, createdAt = 1\<rparr>,
         \<lparr>idD = ''d2'', content = ''y'', emotion = None, mediaUri = None, mediaType = None,
          tags = Some [], lastSurfacedAt = None, status = 5, createdAt = 2\<rparr>,
         \<lparr>idD = ''d3'', content = ''z'', emotion = None, mediaUri = None, mediaType = None,
          tags = Some [], lastSurfacedAt = None, status = - 1, createdAt = 3\<rparr>]\<rparr>)
     = None"
proof -
  have lo: "(0::real) \<le> 1 / 2" and hi: "(1 / 2 :: real) < 1" by simp_all
  show ?thesis
    using lo hi
      surface_eligible [OF lo hi, where excludeIds = "[]" and excludeParam = "Some ''d9,,d1''"
        and st = "empty_db\<lparr>deposits :=
        [\<lparr>idD = ''d1'', content = ''x'', emotion = None, mediaUri = None, mediaType = None,
          tags = Some [], lastSurfacedAt = None, status = 0, createdAt = 1\<rparr>,
         \<lparr>idD = ''d2'', content = ''y'', emotion = None, mediaUri = None, mediaType = None,
          tags = Some [], lastSurfacedAt = None, status = 5, createdAt = 2\<rparr>,
         \<lparr>idD = ''d3'', content = ''z'', emotion = None, mediaUri = None, mediaType = None,
          tags = Some [], lastSurfacedAt = None, status = - 1, createdAt = 3\<rparr>]\<rparr>"]
      surface_eligible [OF lo hi, where excludeIds = "[''d1'']" and excludeParam = "None"
        and st = "empty_db\<lparr>deposits :=
        [\<lparr>idD = ''d1'', content = ''x'', emotion = None, mediaUri = None, mediaType = None,
          tags = Some [], lastSurfacedAt = None, status = 0, createdAt = 1\<rparr>,
         \<lparr>idD = ''d2'', content = ''y'', emotion = None, mediaUri = None, mediaType = None,
          tags = Some [], lastSurfacedAt = None, status = 5, createdAt = 2\<rparr>,
         \<lparr>idD = ''d3'', content = ''z'', emotion = None, mediaUri = None, mediaType = None,
          tags = Some [], lastSurfacedAt = None, status = - 1, createdAt = 3\<rparr>]\<rparr>"]
    by (simp add: surface_def get_surface_def parse_exclude_def eligibleDeposits_def
        random_pick_def empty_db_def)
qed

section \<open>Marking a deposit surfaced\<close>

lemma markSurfaced_found:
  assumes "filter (\<lambda>d. idD d = i) (deposits st) = x # xs"
  shows "markSurfaced i now st =
     (Inr (x\<lparr>lastSurfacedAt := Some now, status := 30\<rparr>),
      st\<lparr>deposits := map (\<lambda>d. if idD d = i then d\<lparr>lastSurfacedAt := Some now, status := 30\<rparr> else d)
                        (deposits st)\<rparr>)"
  unfolding markSurfaced_def sql_update_def using assms by simp

lemma cooled_not_eligible:
  assumes "d \<in> set (map (\<lambda>d. if idD d = i then d\<lparr>lastSurfacedAt := Some now, status := 30\<rparr> else d) ds)"
    and "status d = 0"
  shows "idD d \<noteq> i"
proof -
  from assms(1)
  have "d \<in> set (fst (sql_update (\<lambda>d. idD d = i)
                       (\<lambda>d. d\<lparr>lastSurfacedAt := Some now, status := 30\<rparr>) ds))"
    by (simp only: fst_sql_update)
  from in_sql_update [OF this] show ?thesis
  proof
    assume "\<exists>x\<in>set ds. idD x = i \<and> d = x\<lparr>lastSurfacedAt := Some now, status := 30\<rparr>"
    then obtain x where "d = x\<lparr>lastSurfacedAt := Some now, status := 30\<rparr>" by blast
    then have "status d = 30" by simp
    with assms(2) show ?thesis by simp
  next
    assume "d \<in> set ds \<and> idD d \<noteq> i"
    then show ?thesis by simp
  qed
qed

text \<open>
  C3. When a deposit with id \<open>i\<close> exists, \<open>markSurfaced i\<close> succeeds; its single update
  gives every row with that id \<open>lastSurfacedAt = now\<close> and \<open>status = 30\<close> and changes
  nothing else; and in the store it leaves, \<open>surface\<close> with an empty exclusion list
  answers no deposit with id \<open>i\<close>, whatever the random source gives.
\<close>

theorem markSurfaced_cooldown:
  assumes "list_ex (\<lambda>d. idD d = i) (deposits st)"
  shows "(case fst (markSurfaced i now st) of
            Inl e \<Rightarrow> False
          | Inr u \<Rightarrow> idD u = i \<and> lastSurfacedAt u = Some now \<and> status u = 30) \<and>
         snd (markSurfaced i now st) =
           st\<lparr>deposits :=
                map (\<lambda>d. if idD d = i then d\<lparr>lastSurfacedAt := Some now, status := 30\<rparr> else d)
                  (deposits st)\<rparr> \<and>
         (case surface [] r (snd (markSurfaced i now st)) of
            None \<Rightarrow> True
          | Some d \<Rightarrow> idD d \<noteq> i)"
proof -
  let ?rows = "map (\<lambda>d. if idD d = i then d\<lparr>lastSurfacedAt := Some now, status := 30\<rparr> else d)
                 (deposits st)"
  from assms have "filter (\<lambda>d. idD d = i) (deposits st) \<noteq> []"
    by (simp add: filter_empty_conv list_ex_iff)
  then obtain x xs where xs: "filter (\<lambda>d. idD d = i) (deposits st) = x # xs"
    by (cases "filter (\<lambda>d. idD d = i) (deposits st)") auto
  then have "x \<in> set (filter (\<lambda>d. idD d = i) (deposits st))" by simp
  then have xi: "idD x = i" by simp
  note res = markSurfaced_found [OF xs, of now]
  have first: "case fst (markSurfaced i now st) of
            Inl e \<Rightarrow> False
          | Inr u \<Rightarrow> idD u = i \<and> lastSurfacedAt u = Some now \<and> status u = 30"
    unfolding res using xi by simp
  have second: "snd (markSurfaced i now st) = st\<lparr>deposits := ?rows\<rparr>"
    unfolding res by simp
  have third: "case surface [] r (st\<lparr>deposits := ?rows\<rparr>) of None \<Rightarrow> True | Some d \<Rightarrow> idD d \<noteq> i"
  proof (cases "surface [] r (st\<lparr>deposits := ?rows\<rparr>)")
    case None
    then show ?thesis by (simp only: option.case)
  next
    case (Some d)
    from surface_Some_eligible [OF Some]
    have "d \<in> set (filter (\<lambda>d. status d = 0) ?rows)"
      by (simp only: eligible_nil_upd)
    then have "d \<in> set ?rows" and "status d = 0"
      by (simp_all only: set_filter mem_Collect_eq)
    then have "idD d \<noteq> i" by (rule cooled_not_eligible)
    with Some show ?thesis by (simp only: option.case not_False_eq_True)
  qed
  from first second third show ?thesis by (simp only: second)
qed

text \<open>
  C3, at a store whose only deposit is active: marking it surfaced sets both fields, and
  the next surfacing finds nothing.
\<close>

theorem markSurfaced_cooldown_witness:
  "list_ex (\<lambda>d. idD d = ''d1'') (deposits (empty_db\<lparr>deposits :=
        [\<lparr>idD = ''d1'', content = ''x'', emotion = None, mediaUri = None, mediaType = None,
          tags = Some [], lastSurfacedAt = None, status = 0, createdAt = 1\<rparr>]\<rparr>)) \<and>
   markSurfaced ''d1'' 99 (empty_db\<lparr>deposits :=
        [\<lparr>idD = ''d1'', content = ''x'', emotion = None, mediaUri = None, mediaType = None,
          tags = Some [], lastSurfacedAt = None, status = 0, createdAt = 1\<rparr>]\<rparr>)
     = (Inr \<lparr>idD = ''d1'', content = ''x'', emotion = None, mediaUri = None, mediaType = None,
          tags = Some [], lastSurfacedAt = Some 99, status = 30, createdAt = 1\<rparr>,
        empty_db\<lparr>deposits :=
        [\<lparr>idD = ''d1'', content = ''x'', emotion = None, mediaUri = None, mediaType = None,
          tags = Some [], lastSurfacedAt = Some 99, status = 30, createdAt = 1\<rparr>]\<rparr>) \<and>
   surface [] (1 / 2) (snd (markSurfaced ''d1'' 99 (empty_db\<lparr>deposits :=
        [\<lparr>idD = ''d1'', content = ''x'', emotion = None, mediaUri = None, mediaType = None,
          tags = Some [], lastSurfacedAt = None, status = 0, createdAt = 1\<rparr>]\<rparr>))) = None"
proof -
  let ?st = "empty_db\<lparr>deposits :=
        [\<lparr>idD = ''d1'', content = ''x'', emotion = None, mediaUri = None, mediaType = None,
          tags = Some [], lastSurfacedAt = None, status = 0, createdAt = 1\<rparr>]\<rparr>"
  have h: "list_ex (\<lambda>d. idD d = ''d1'') (deposits ?st)" by simp
  show ?thesis
    using h markSurfaced_cooldown [OF h, of 99 "1 / 2"]
    by (simp add: markSurfaced_def sql_update_def surface_def eligibleDeposits_def empty_db_def)
qed

section \<open>Creating deposits\<close>

lemma create_valid:
  assumes "insertDepositSchema body"
  shows "case create body newId now st of
           (Inl e, st') \<Rightarrow> False
         | (Inr d, st') \<Rightarrow>
             status d = 0 \<and> idD d = newId \<and> st' = st\<lparr>deposits := deposits st @ [d]\<rparr>"
  using assms by (simp add: create_def insertDepositSchema_def Let_def split: field.splits)

lemma create_status:
  "case fst (create body newId now st) of Inl e \<Rightarrow> True | Inr d \<Rightarrow> status d = 0"
  by (simp add: create_def Let_def split: field.splits)

lemma accepted_connections_nonempty:
  "accepted_connections s r st \<noteq> [] \<longleftrightarrow>
     list_ex (\<lambda>c. userId c = s \<and> connectedUserId c = r \<and> statusC c = ''accepted'')
       (connections st)"
  by (auto simp: accepted_connections_def filter_empty_conv list_ex_iff)

lemma share_valid:
  assumes "insertSharedDepositSchema sbody"
    and "list_ex (\<lambda>c. Val (userId c) = senderIdS sbody \<and>
                      Val (connectedUserId c) = receiverIdS sbody \<and>
                      statusC c = ''accepted'') (connections st)"
  shows "case share sbody newId now st of
           (Inl e, st') \<Rightarrow> False
         | (Inr sd, st') \<Rightarrow>
             status sd = 0 \<and> idD sd = newId \<and>
             Val (senderId sd) = senderIdS sbody \<and> Val (receiverId sd) = receiverIdS sbody \<and>
             st' = st\<lparr>sharedDeposits := sharedDeposits st @ [sd]\<rparr>"
proof -
  from assms(1) obtain s r c where f: "senderIdS sbody = Val s" "receiverIdS sbody = Val r"
    "contentS sbody = Val c" and nn: "statusS sbody \<noteq> Null"
    by (auto simp: insertSharedDepositSchema_def split: field.splits)
  from assms(2) f have "accepted_connections s r st \<noteq> []"
    by (simp add: accepted_connections_nonempty)
  then obtain x xs where "accepted_connections s r st = x # xs"
    by (cases "accepted_connections s r st") auto
  with f nn show ?thesis by (simp add: share_def Let_def)
qed

lemma share_status:
  "case fst (share sbody newId now st) of Inl e \<Rightarrow> True | Inr sd \<Rightarrow> status sd = 0"
  by (simp add: share_def Let_def split: field.splits list.splits)

text \<open>
  C4. A body that \<open>insertDepositSchema\<close> accepts, whatever its status property, makes
  \<open>create\<close> append a deposit with status 0, and no answer of \<open>create\<close> is a deposit with
  another status. In the same way a body that \<open>insertSharedDepositSchema\<close> accepts, sent
  over an accepted connection, makes \<open>share\<close> append a shared deposit with status 0, and no
  answer of \<open>share\<close> is a shared deposit with another status.
\<close>

theorem new_deposits_start_active:
  "(insertDepositSchema body \<longrightarrow>
      (case create body newId now st of
         (Inl e, st') \<Rightarrow> False
       | (Inr d, st') \<Rightarrow>
           status d = 0 \<and> idD d = newId \<and> st' = st\<lparr>deposits := deposits st @ [d]\<rparr>)) \<and>
   (case fst (create body newId now st) of Inl e \<Rightarrow> True | Inr d \<Rightarrow> status d = 0) \<and>
   (insertSharedDepositSchema sbody \<and>
    list_ex (\<lambda>c. Val (userId c) = senderIdS sbody \<and> Val (connectedUserId c) = receiverIdS sbody \<and>
                 statusC c = ''accepted'') (connections st) \<longrightarrow>
      (case share sbody newId now st of
         (Inl e, st') \<Rightarrow> False
       | (Inr sd, st') \<Rightarrow>
           status sd = 0 \<and> idD sd = newId \<and>
           Val (senderId sd) = senderIdS sbody \<and> Val (receiverId sd) = receiverIdS sbody \<and>
           st' = st\<lparr>sharedDeposits := sharedDeposits st @ [sd]\<rparr>)) \<and>
   (case fst (share sbody newId now st) of Inl e \<Rightarrow> True | Inr sd \<Rightarrow> status sd = 0)"
proof (intro conjI impI)
  assume "insertDepositSchema body"
  then show "case create body newId now st of
         (Inl e, st') \<Rightarrow> False
       | (Inr d, st') \<Rightarrow>
           status d = 0 \<and> idD d = newId \<and> st' = st\<lparr>deposits := deposits st @ [d]\<rparr>"
    by (rule create_valid)
next
  show "case fst (create body newId now st) of Inl e \<Rightarrow> True | Inr d \<Rightarrow> status d = 0"
    by (rule create_status)
next
  assume h: "insertSharedDepositSchema sbody \<and>
    list_ex (\<lambda>c. Val (userId c) = senderIdS sbody \<and> Val (connectedUserId c) = receiverIdS sbody \<and>
                 statusC c = ''accepted'') (connections st)"
  show "case share sbody newId now st of
         (Inl e, st') \<Rightarrow> False
       | (Inr sd, st') \<Rightarrow>
           status sd = 0 \<and> idD sd = newId \<and>
           Val (senderId sd) = senderIdS sbody \<and> Val (receiverId sd) = receiverIdS sbody \<and>
           st' = st\<lparr>sharedDeposits := sharedDeposits st @ [sd]\<rparr>"
    by (rule share_valid) (use h in blast)+
next
  show "case fst (share sbody newId now st) of Inl e \<Rightarrow> True | Inr sd \<Rightarrow> status sd = 0"
    by (rule share_status)
qed

text \<open>
  C4, at a body that asks for status 7: the deposit created has status 0. And at a shared
  body that asks for status 7, sent over an accepted connection: the shared deposit has
  status 0.
\<close>

theorem new_deposits_start_active_witness:
  "insertDepositSchema
     \<lparr>contentIn = Val ''x'', emotionIn = Absent, mediaUriIn = Absent, mediaTypeIn = Absent,
      tagsIn = Absent, lastSurfacedAtIn = Null, statusIn = Val 7\<rparr> \<and>
   fst (create
     \<lparr>contentIn = Val ''x'', emotionIn = Absent, mediaUriIn = Absent, mediaTypeIn = Absent,
      tagsIn = Absent, lastSurfacedAtIn = Null, statusIn = Val 7\<rparr> ''n1'' 5
     (empty_db\<lparr>connections :=
        [\<lparr>idC = ''c1'', userId = ''a'', connectedUserId = ''b'', statusC = ''accepted'',
          createdAtC = 1, acceptedAt = Some 1\<rparr>]\<rparr>))
   = Inr \<lparr>idD = ''n1'', content = ''x'', emotion = None, mediaUri = None, mediaType = None,
          tags = Some [], lastSurfacedAt = None, status = 0, createdAt = 5\<rparr> \<and>
   insertSharedDepositSchema
     \<lparr>senderIdS = Val ''a'', receiverIdS = Val ''b'', contentS = Val ''x'', emotionS = Absent,
      mediaUriS = Absent, mediaTypeS = Absent, tagsS = Absent, statusS = Val 7\<rparr> \<and>
   fst (share
     \<lparr>senderIdS = Val ''a'', receiverIdS = Val ''b'', contentS = Val ''x'', emotionS = Absent,
      mediaUriS = Absent, mediaTypeS = Absent, tagsS = Absent, statusS = Val 7\<rparr> ''n1'' 5
     (empty_db\<lparr>connections :=
        [\<lparr>idC = ''c1'', userId = ''a'', connectedUserId = ''b'', statusC = ''accepted'',
          createdAtC = 1, acceptedAt = Some 1\<rparr>]\<rparr>))
   = Inr \<lparr>idD = ''n1'', content = ''x'', emotion = None, mediaUri = None, mediaType = None,
          tags = Some [], lastSurfacedAt = None, status = 0, createdAt = 5,
          senderId = ''a'', receiverId = ''b''\<rparr>"
  using new_deposits_start_active
    [where body = "\<lparr>contentIn = Val ''x'', emotionIn = Absent, mediaUriIn = Absent,
      mediaTypeIn = Absent, tagsIn = Absent, lastSurfacedAtIn = Null, statusIn = Val 7\<rparr>"
       and newId = "''n1''" and now = 5
       and st = "empty_db\<lparr>connections :=
        [\<lparr>idC = ''c1'', userId = ''a'', connectedUserId = ''b'', statusC = ''accepted'',
          createdAtC = 1, acceptedAt = Some 1\<rparr>]\<rparr>"
       and sbody = "\<lparr>senderIdS = Val ''a'', receiverIdS = Val ''b'', contentS = Val ''x'',
      emotionS = Absent, mediaUriS = Absent, mediaTypeS = Absent, tagsS = Absent,
      statusS = Val 7\<rparr>"]
  by (simp add: insertDepositSchema_def insertSharedDepositSchema_def create_def share_def
      accepted_connections_def empty_db_def Let_def)

section \<open>Listing deposits\<close>

lemma sort_desc_sorted:
  "sorted_wrt (\<lambda>a b. createdAt b \<le> createdAt a) (sort_key (\<lambda>d. - createdAt d) xs)"
proof -
  have "sorted (map (\<lambda>d. - createdAt d) (sort_key (\<lambda>d. - createdAt d) xs))"
    by (rule sorted_sort_key)
  then show ?thesis by (simp add: sorted_map)
qed

lemma list_deposits_sorted:
  "sorted_wrt (\<lambda>a b. createdAt b \<le> createdAt a) (list_deposits includeInactive st)"
  by (simp add: list_deposits_def sort_desc_sorted)

lemma list_deposits_cooldown:
  "list_all (\<lambda>d. 0 < status d \<longrightarrow> d \<in> set (list_deposits False st)) (deposits st)"
  by (auto simp: list_deposits_def list_all_iff)

text \<open>
  C5. \<open>list_deposits False\<close> answers exactly the deposits whose status is not -1, each as
  often as the store holds it, so deposits in cooldown are among them; \<open>list_deposits True\<close>
  answers all deposits; both answers are ordered by \<open>createdAt\<close>, newest first.
\<close>

theorem list_deposits_contract:
  "mset (list_deposits False st) = mset (filter (\<lambda>d. status d \<noteq> - 1) (deposits st)) \<and>
   mset (list_deposits True st) = mset (deposits st) \<and>
   sorted_wrt (\<lambda>a b. createdAt b \<le> createdAt a) (list_deposits includeInactive st) \<and>
   list_all (\<lambda>d. 0 < status d \<longrightarrow> d \<in> set (list_deposits False st)) (deposits st) \<and>
   get_deposits None st = list_deposits False st \<and>
   get_deposits (Some ''true'') st = list_deposits True st"
proof -
  have a: "mset (list_deposits False st) = mset (filter (\<lambda>d. status d \<noteq> - 1) (deposits st))"
    by (simp add: list_deposits_def)
  have b: "mset (list_deposits True st) = mset (deposits st)"
    by (simp add: list_deposits_def)
  have c: "get_deposits None st = list_deposits False st"
    "get_deposits (Some ''true'') st = list_deposits True st"
    by (simp_all add: get_deposits_def)
  from a b c list_deposits_sorted list_deposits_cooldown show ?thesis by (intro conjI)
qed

text \<open>
  C5, at the store of three deposits with status 0, 5 and -1, created in this order: the
  default listing is the second, then the first; the listing with inactive deposits is
  all three, newest first.
\<close>

theorem list_deposits_contract_witness:
  "list_deposits False
     (empty_db\<lparr>deposits :=
        [\<lparr>idD = ''d1'', content = ''x'', emotion = None, mediaUri = None, mediaType = None,
          tags = Some [], lastSurfacedAt = None, status = 0, createdAt = 1\<rparr>,
         \<lparr>idD = ''d2'', content = ''y'', emotion = None, mediaUri = None, mediaType = None,
          tags = Some [], lastSurfacedAt = None, status = 5, createdAt = 2\<rparr>,
         \<lparr>idD = ''d3'', content = ''z'', emotion = None, mediaUri = None, mediaType = None,
          tags = Some [], lastSurfacedAt = None, status = - 1, createdAt = 3\<rparr>]\<rparr>)
   = [\<lparr>idD = ''d2'', content = ''y'', emotion = None, mediaUri = None, mediaType = None,
          tags = Some [], lastSurfacedAt = None, status = 5, createdAt = 2\<rparr>,
      \<lparr>idD = ''d1'', content = ''x'', emotion = None, mediaUri = None, mediaType = None,
          tags = Some [], lastSurfacedAt = None, status = 0, createdAt = 1\<rparr>] \<and>
   list_deposits True
     (empty_db\<lparr>deposits :=
        [\<lparr>idD = ''d1'', content = ''x'', emotion = None, mediaUri = None, mediaType = None,
          tags = Some [], lastSurfacedAt = None, status = 0, createdAt = 1\<rparr>,
         \<lparr>idD = ''d2'', content = ''y'', emotion = None, mediaUri = None, mediaType = None,
          tags = Some [], lastSurfacedAt = None, status = 5, createdAt = 2\<rparr>,
         \<lparr>idD = ''d3'', content = ''z'', emotion = None, mediaUri = None, mediaType = None,
          tags = Some [], lastSurfacedAt = None, status = - 1, createdAt = 3\<rparr>]\<rparr>)
   = [\<lparr>idD = ''d3'', content = ''z'', emotion = None, mediaUri = None, mediaType = None,
          tags = Some [], lastSurfacedAt = None, status = - 1, createdAt = 3\<rparr>,
      \<lparr>idD = ''d2'', content = ''y'', emotion = None, mediaUri = None, mediaType = None,
          tags = Some [], lastSurfacedAt = None, status = 5, createdAt = 2\<rparr>,
      \<lparr>idD = ''d1'', content = ''x'', emotion = None, mediaUri = None, mediaType = None,
          tags = Some [], lastSurfacedAt = None, status = 0, createdAt = 1\<rparr>]"
  using list_deposits_contract
    [where includeInactive = True and st = "empty_db\<lparr>deposits :=
        [\<lparr>idD = ''d1'', content = ''x'', emotion = None, mediaUri = None, mediaType = None,
          tags = Some [], lastSurfacedAt = None, status = 0, createdAt = 1\<rparr>,
         \<lparr>idD = ''d2'', content = ''y'', emotion = None, mediaUri = None, mediaType = None,
          tags = Some [], lastSurfacedAt = None, status = 5, createdAt = 2\<rparr>,
         \<lparr>idD = ''d3'', content = ''z'', emotion = None, mediaUri = None, mediaType = None,
          tags = Some [], lastSurfacedAt = None, status = - 1, createdAt = 3\<rparr>]\<rparr>"]
  by (simp add: list_deposits_def empty_db_def)

section \<open>The status invariant\<close>

lemma status_inv_upd:
  "status_inv (st\<lparr>deposits := rows\<rparr>) \<longleftrightarrow> list_all (\<lambda>d. valid_status (status d)) rows"
  by (simp add: status_inv_def)

lemma create_status_inv: "status_inv st \<Longrightarrow> status_inv (snd (create body newId now st))"
  by (simp add: create_def Let_def status_inv_def valid_status_def split: field.splits)

lemma status_apply_patch: "status (apply_patch body d) = status d"
  by (simp add: apply_patch_def Let_def split: field.splits)

lemma update_snd:
  "snd (update i body st) = st \<or>
   snd (update i body st) =
     st\<lparr>deposits := fst (sql_update (\<lambda>d. idD d = i) (apply_patch body) (deposits st))\<rparr>"
  by (simp add: update_def split: prod.splits list.splits)

lemma snd_setStatus:
  "snd (setStatus i v st) = st \<or>
   (\<exists>q. v = JNum q \<and> snd (setStatus i v st) =
     st\<lparr>deposits := fst (sql_update (\<lambda>d. idD d = i) (\<lambda>d. d\<lparr>status := \<lfloor>q\<rfloor>\<rparr>) (deposits st))\<rparr>)"
  by (simp add: setStatus_def split: json.splits prod.splits list.splits)

lemma snd_softDelete:
  "snd (softDelete i st) =
     st\<lparr>deposits := fst (sql_update (\<lambda>d. idD d = i) (\<lambda>d. d\<lparr>status := - 1\<rparr>) (deposits st))\<rparr>"
  by (simp add: softDelete_def split: prod.splits list.splits)

lemma snd_markSurfaced:
  "snd (markSurfaced i now st) =
     st\<lparr>deposits := fst (sql_update (\<lambda>d. idD d = i)
              (\<lambda>d. d\<lparr>lastSurfacedAt := Some now, status := 30\<rparr>) (deposits st))\<rparr>"
  by (simp add: markSurfaced_def split: prod.splits list.splits)

lemma step_status_inv:
  assumes "status_inv st" and "in_range_op c"
  shows "status_inv (step c st)"
proof (cases c)
  case (Create body newId now)
  from assms(1) show ?thesis
    unfolding Create step.simps by (rule create_status_inv)
next
  case (Update i body)
  have "list_all (\<lambda>d. valid_status (status d))
          (fst (sql_update (\<lambda>d. idD d = i) (apply_patch body) (deposits st)))"
    using assms(1) unfolding status_inv_def
    by (rule sql_update_list_all) (simp add: status_apply_patch)
  with update_snd [of i body st] assms(1) show ?thesis
    unfolding Update step.simps by (auto simp: status_inv_upd)
next
  case (SetStatus i v)
  show ?thesis
  proof (cases "snd (setStatus i v st) = st")
    case True
    with assms(1) show ?thesis unfolding SetStatus step.simps by simp
  next
    case False
    with snd_setStatus [of i v st] obtain q where v: "v = JNum q"
      and s: "snd (setStatus i v st) =
        st\<lparr>deposits := fst (sql_update (\<lambda>d. idD d = i) (\<lambda>d. d\<lparr>status := \<lfloor>q\<rfloor>\<rparr>) (deposits st))\<rparr>"
      by blast
    from assms(2) v have ok: "valid_status \<lfloor>q\<rfloor>" unfolding SetStatus by simp
    have "list_all (\<lambda>d. valid_status (status d))
            (fst (sql_update (\<lambda>d. idD d = i) (\<lambda>d. d\<lparr>status := \<lfloor>q\<rfloor>\<rparr>) (deposits st)))"
      using assms(1) unfolding status_inv_def
      by (rule sql_update_list_all) (simp add: ok)
    then show ?thesis unfolding SetStatus step.simps s by (simp only: status_inv_upd)
  qed
next
  case (SoftDelete i)
  have "list_all (\<lambda>d. valid_status (status d))
          (fst (sql_update (\<lambda>d. idD d = i) (\<lambda>d. d\<lparr>status := - 1\<rparr>) (deposits st)))"
    using assms(1) unfolding status_inv_def
    by (rule sql_update_list_all) (simp add: valid_status_def)
  then show ?thesis unfolding SoftDelete step.simps snd_softDelete by (simp only: status_inv_upd)
next
  case (MarkSurfaced i now)
  have "list_all (\<lambda>d. valid_status (status d))
          (fst (sql_update (\<lambda>d. idD d = i)
                  (\<lambda>d. d\<lparr>lastSurfacedAt := Some now, status := 30\<rparr>) (deposits st)))"
    using assms(1) unfolding status_inv_def
    by (rule sql_update_list_all) (simp add: valid_status_def)
  then show ?thesis
    unfolding MarkSurfaced step.simps snd_markSurfaced by (simp only: status_inv_upd)
next
  case (Surface excludeParam r)
  with assms(1) show ?thesis by simp
qed

lemma run_status_inv:
  "status_inv st \<Longrightarrow> list_all in_range_op ops \<Longrightarrow> status_inv (run ops st)"
  unfolding run_def
  by (induction ops arbitrary: st) (simp_all add: step_status_inv)

lemma setStatus_stores:
  "list_all (\<lambda>d. idD d = i \<longrightarrow> status d = n)
     (fst (sql_update (\<lambda>d. idD d = i) (\<lambda>d. d\<lparr>status := n\<rparr>) rows))"
  by (induction rows) (simp_all add: sql_update_def)

text \<open>
  C1 as stated fails: \<open>setStatus\<close> checks only that the status is a number, so on a store
  that satisfies the invariant (here the one a single \<open>create\<close> leaves) it stores -5.
\<close>

theorem status_invariant_counterexample:
  "status_inv (run [Create \<lparr>contentIn = Val ''x'', emotionIn = Absent, mediaUriIn = Absent,
                     mediaTypeIn = Absent, tagsIn = Absent, lastSurfacedAtIn = Absent,
                     statusIn = Absent\<rparr> ''d1'' 1] empty_db) \<and>
   map status (deposits (run [Create \<lparr>contentIn = Val ''x'', emotionIn = Absent,
                     mediaUriIn = Absent, mediaTypeIn = Absent, tagsIn = Absent,
                     lastSurfacedAtIn = Absent, statusIn = Absent\<rparr> ''d1'' 1,
                  SetStatus ''d1'' (JNum (- 5))] empty_db)) = [- 5] \<and>
   \<not> status_inv (run [Create \<lparr>contentIn = Val ''x'', emotionIn = Absent, mediaUriIn = Absent,
                     mediaTypeIn = Absent, tagsIn = Absent, lastSurfacedAtIn = Absent,
                     statusIn = Absent\<rparr> ''d1'' 1,
                  SetStatus ''d1'' (JNum (- 5))] empty_db)"
  by (simp add: run_def create_def setStatus_def sql_update_def is_int32_def status_inv_def
      valid_status_def empty_db_def Let_def)

lemma setStatus_found:
  assumes "is_int32 q" and "list_ex (\<lambda>d. idD d = i) (deposits st)"
  shows "case fst (setStatus i (JNum q) st) of
           Inl e \<Rightarrow> False
         | Inr u \<Rightarrow> idD u = i \<and> status u = \<lfloor>q\<rfloor>"
proof -
  from assms(2) have "filter (\<lambda>d. idD d = i) (deposits st) \<noteq> []"
    by (simp add: filter_empty_conv list_ex_iff)
  then obtain x xs where xs: "filter (\<lambda>d. idD d = i) (deposits st) = x # xs"
    by (cases "filter (\<lambda>d. idD d = i) (deposits st)") auto
  then have "x \<in> set (filter (\<lambda>d. idD d = i) (deposits st))" by simp
  then have "idD x = i" by simp
  with assms(1) xs show ?thesis by (simp add: setStatus_def sql_update_def)
qed

lemma setStatus_rows:
  assumes "is_int32 q"
  shows "list_all (\<lambda>d. idD d = i \<longrightarrow> status d = \<lfloor>q\<rfloor>)
           (deposits (snd (setStatus i (JNum q) st)))"
proof -
  have "snd (setStatus i (JNum q) st) =
     st\<lparr>deposits := fst (sql_update (\<lambda>d. idD d = i) (\<lambda>d. d\<lparr>status := \<lfloor>q\<rfloor>\<rparr>) (deposits st))\<rparr>"
    using assms by (simp add: setStatus_def split: prod.splits list.splits)
  then show ?thesis by (simp add: setStatus_stores)
qed

text \<open>
  C1, amended. A run of create, update, soft-delete, mark-surfaced and surface commands,
  and of set-status commands whose number is in \<open>{-1} \<union> {0} \<union>\<close> the positive integers,
  keeps every status in that set. Set-status itself stores the number it is given, any
  integer of the column's 32 bits: afterwards every row with the id has that status.
\<close>

theorem status_invariant_amended:
  "(status_inv st \<and> list_all in_range_op ops \<longrightarrow> status_inv (run ops st)) \<and>
   (is_int32 q \<longrightarrow>
      list_all (\<lambda>d. idD d = i \<longrightarrow> status d = \<lfloor>q\<rfloor>) (deposits (snd (setStatus i (JNum q) st)))) \<and>
   (is_int32 q \<and> list_ex (\<lambda>d. idD d = i) (deposits st) \<longrightarrow>
      (case fst (setStatus i (JNum q) st) of
         Inl e \<Rightarrow> False
       | Inr u \<Rightarrow> idD u = i \<and> status u = \<lfloor>q\<rfloor>))"
proof (intro conjI impI)
  assume "status_inv st \<and> list_all in_range_op ops"
  then show "status_inv (run ops st)" by (simp add: run_status_inv)
next
  assume "is_int32 q"
  then show "list_all (\<lambda>d. idD d = i \<longrightarrow> status d = \<lfloor>q\<rfloor>)
               (deposits (snd (setStatus i (JNum q) st)))"
    by (rule setStatus_rows)
next
  assume "is_int32 q \<and> list_ex (\<lambda>d. idD d = i) (deposits st)"
  then show "case fst (setStatus i (JNum q) st) of
         Inl e \<Rightarrow> False
       | Inr u \<Rightarrow> idD u = i \<and> status u = \<lfloor>q\<rfloor>"
    by (simp add: setStatus_found)
qed

text \<open>
  C1 amended, at a store with one active deposit: a cooldown of 5 days, a soft delete and
  a surfacing in a row keep the invariant; set-status with -5 stores -5.
\<close>

theorem status_invariant_amended_witness:
  "status_inv (empty_db\<lparr>deposits :=
        [\<lparr>idD = ''d1'', content = ''x'', emotion = None, mediaUri = None, mediaType = None,
          tags = Some [], lastSurfacedAt = None, status = 0, createdAt = 1\<rparr>]\<rparr>) \<and>
   list_all in_range_op [SetStatus ''d1'' (JNum 5), SoftDelete ''d1'', MarkSurfaced ''d1'' 9] \<and>
   status_inv (run [SetStatus ''d1'' (JNum 5), SoftDelete ''d1'', MarkSurfaced ''d1'' 9]
     (empty_db\<lparr>deposits :=
        [\<lparr>idD = ''d1'', content = ''x'', emotion = None, mediaUri = None, mediaType = None,
          tags = Some [], lastSurfacedAt = None, status = 0, createdAt = 1\<rparr>]\<rparr>)) \<and>
   is_int32 (- 5) \<and>
   fst (setStatus ''d1'' (JNum (- 5)) (empty_db\<lparr>deposits :=
        [\<lparr>idD = ''d1'', content = ''x'', emotion = None, mediaUri = None, mediaType = None,
          tags = Some [], lastSurfacedAt = None, status = 0, createdAt = 1\<rparr>]\<rparr>))
   = Inr \<lparr>idD = ''d1'', content = ''x'', emotion = None, mediaUri = None, mediaType = None,
          tags = Some [], lastSurfacedAt = None, status = - 5, createdAt = 1\<rparr>"
  using status_invariant_amended
    [where st = "empty_db\<lparr>deposits :=
        [\<lparr>idD = ''d1'', content = ''x'', emotion = None, mediaUri = None, mediaType = None,
          tags = Some [], lastSurfacedAt = None, status = 0, createdAt = 1\<rparr>]\<rparr>"
       and ops = "[SetStatus ''d1'' (JNum 5), SoftDelete ''d1'', MarkSurfaced ''d1'' 9]"
       and q = "- 5" and i = "''d1''"]
  by (simp add: status_inv_def valid_status_def is_int32_def setStatus_def sql_update_def
      empty_db_def Let_def)

section \<open>Updating a deposit\<close>

lemma apply_patch_frame:
  "apply_patch body d =
     d\<lparr>content := content (apply_patch body d), emotion := emotion (apply_patch body d),
       tags := tags (apply_patch body d)\<rparr>"
  by (simp add: apply_patch_def Let_def split: field.splits)

lemma apply_patch_id: "idD (apply_patch body d) = idD d"
  by (simp add: apply_patch_def Let_def split: field.splits)

lemma update_rows_frame:
  "list_all2
     (\<lambda>d d'. (idD d \<noteq> i \<longrightarrow> d' = d) \<and>
              d' = d\<lparr>content := content d', emotion := emotion d', tags := tags d'\<rparr>)
     rows (fst (sql_update (\<lambda>d. idD d = i) (apply_patch body) rows))"
proof (rule sql_update_list_all2)
  fix r :: deposit
  show "(idD r \<noteq> i \<longrightarrow> r = r) \<and>
        r = r\<lparr>content := content r, emotion := emotion r, tags := tags r\<rparr>"
    by simp
next
  fix r :: deposit
  assume "idD r = i"
  then show "(idD r \<noteq> i \<longrightarrow> apply_patch body r = r) \<and>
        apply_patch body r =
          r\<lparr>content := content (apply_patch body r), emotion := emotion (apply_patch body r),
            tags := tags (apply_patch body r)\<rparr>"
    using apply_patch_frame [of body r] by simp
qed

lemma rows_frame_refl:
  "list_all2
     (\<lambda>d d'. (idD d \<noteq> i \<longrightarrow> d' = d) \<and>
              d' = d\<lparr>content := content d', emotion := emotion d', tags := tags d'\<rparr>)
     rows rows"
  by (rule list_all2_refl) simp

lemma update_failure:
  assumes "isl (fst (update i body st))"
  shows "snd (update i body st) = st"
proof (cases "(contentP body = Absent \<and> emotionP body = Absent \<and> tagsP body = Absent) \<or>
    (contentP body = Null \<and> filter (\<lambda>d. idD d = i) (deposits st) \<noteq> [])")
  case True
  then show ?thesis by (auto simp: update_def)
next
  case False
  show ?thesis
  proof (cases "filter (\<lambda>d. idD d = i) (deposits st)")
    case Nil
    from sql_update_nomatch [OF Nil, of "apply_patch body"] False show ?thesis
      by (auto simp: update_def)
  next
    case (Cons x xs)
    with False assms show ?thesis
      by (auto simp: update_def sql_update_def)
  qed
qed

lemma update_absent:
  assumes "\<not> list_ex (\<lambda>d. idD d = i) (deposits st)"
    and "\<not> (contentP body = Absent \<and> emotionP body = Absent \<and> tagsP body = Absent)"
  shows "fst (update i body st) = Inl (NotFound ''Deposit not found'')"
proof -
  from assms(1) have nil: "filter (\<lambda>d. idD d = i) (deposits st) = []"
    by (simp add: filter_empty_conv list_ex_iff)
  from sql_update_nomatch [OF nil, of "apply_patch body"] nil assms(2) show ?thesis
    by (auto simp: update_def)
qed

lemma update_present:
  assumes "list_ex (\<lambda>d. idD d = i) (deposits st)"
    and "\<not> (contentP body = Absent \<and> emotionP body = Absent \<and> tagsP body = Absent)"
    and "contentP body \<noteq> Null"
  shows "case fst (update i body st) of Inl e \<Rightarrow> False | Inr u \<Rightarrow> idD u = i"
proof -
  from assms(1) have "filter (\<lambda>d. idD d = i) (deposits st) \<noteq> []"
    by (simp add: filter_empty_conv list_ex_iff)
  then obtain x xs where xs: "filter (\<lambda>d. idD d = i) (deposits st) = x # xs"
    by (cases "filter (\<lambda>d. idD d = i) (deposits st)") auto
  then have "x \<in> set (filter (\<lambda>d. idD d = i) (deposits st))" by simp
  then have "idD x = i" by simp
  with xs assms(2,3) show ?thesis
    by (auto simp: update_def sql_update_def apply_patch_id)
qed

text \<open>
  C9. The claim says that \<open>update\<close> with an absent id fails with NotFound and changes no
  record. The handler tries to: it answers 404 when the UPDATE returns no row. But at a
  body with none of the three properties and an id that no deposit has, the statement
  throws before any row is looked for, and the answer is the 500 of the \<^verbatim>\<open>catch\<close>; the
  store is unchanged.
\<close>

theorem update_empty_body_absent_id:
  "\<not> list_ex (\<lambda>d. idD d = ''d1'') (deposits empty_db) \<and>
   update ''d1'' \<lparr>contentP = Absent, emotionP = Absent, tagsP = Absent\<rparr> empty_db
     = (Inl (ServerError ''Failed to update deposit''), empty_db) \<and>
   fst (update ''d1'' \<lparr>contentP = Absent, emotionP = Absent, tagsP = Absent\<rparr> empty_db)
     \<noteq> Inl (NotFound ''Deposit not found'')"
  by (simp add: update_def empty_db_def)

text \<open>
  What \<open>update\<close> does keep, for the bodies of \<open>deposit_patch\<close>: the rows stay in their
  order, each equal to the old one except possibly in content, emotion and tags, and rows
  with another id equal to the old ones; the other tables are untouched; every failure
  leaves the store as it was. An absent id with a body that has at least one of the three
  properties is answered NotFound.
\<close>

lemma update_frame_typed:
  "list_all2
     (\<lambda>d d'. (idD d \<noteq> i \<longrightarrow> d' = d) \<and>
              d' = d\<lparr>content := content d', emotion := emotion d', tags := tags d'\<rparr>)
     (deposits st) (deposits (snd (update i body st))) \<and>
   snd (update i body st) = st\<lparr>deposits := deposits (snd (update i body st))\<rparr> \<and>
   (isl (fst (update i body st)) \<longrightarrow> snd (update i body st) = st) \<and>
   (\<not> list_ex (\<lambda>d. idD d = i) (deposits st) \<and>
    \<not> (contentP body = Absent \<and> emotionP body = Absent \<and> tagsP body = Absent) \<longrightarrow>
      fst (update i body st) = Inl (NotFound ''Deposit not found'')) \<and>
   (list_ex (\<lambda>d. idD d = i) (deposits st) \<and>
    \<not> (contentP body = Absent \<and> emotionP body = Absent \<and> tagsP body = Absent) \<and>
    contentP body \<noteq> Null \<longrightarrow>
      (case fst (update i body st) of Inl e \<Rightarrow> False | Inr u \<Rightarrow> idD u = i))"
proof (intro conjI impI)
  show "list_all2
     (\<lambda>d d'. (idD d \<noteq> i \<longrightarrow> d' = d) \<and>
              d' = d\<lparr>content := content d', emotion := emotion d', tags := tags d'\<rparr>)
     (deposits st) (deposits (snd (update i body st)))"
    using update_snd [of i body st]
  proof
    assume "snd (update i body st) = st"
    then show ?thesis by (simp only: rows_frame_refl)
  next
    assume "snd (update i body st) =
      st\<lparr>deposits := fst (sql_update (\<lambda>d. idD d = i) (apply_patch body) (deposits st))\<rparr>"
    then have "deposits (snd (update i body st)) =
      fst (sql_update (\<lambda>d. idD d = i) (apply_patch body) (deposits st))" by simp
    then show ?thesis by (simp only: update_rows_frame)
  qed
next
  show "snd (update i body st) = st\<lparr>deposits := deposits (snd (update i body st))\<rparr>"
    using update_snd [of i body st]
  proof
    assume "snd (update i body st) = st"
    then show ?thesis by simp
  next
    assume a: "snd (update i body st) =
      st\<lparr>deposits := fst (sql_update (\<lambda>d. idD d = i) (apply_patch body) (deposits st))\<rparr>"
    show ?thesis by (subst (2) a, subst a) simp
  qed
next
  assume "isl (fst (update i body st))"
  then show "snd (update i body st) = st" by (rule update_failure)
next
  assume "\<not> list_ex (\<lambda>d. idD d = i) (deposits st) \<and>
    \<not> (contentP body = Absent \<and> emotionP body = Absent \<and> tagsP body = Absent)"
  then show "fst (update i body st) = Inl (NotFound ''Deposit not found'')"
    using update_absent by blast
next
  assume "list_ex (\<lambda>d. idD d = i) (deposits st) \<and>
    \<not> (contentP body = Absent \<and> emotionP body = Absent \<and> tagsP body = Absent) \<and>
    contentP body \<noteq> Null"
  then show "case fst (update i body st) of Inl e \<Rightarrow> False | Inr u \<Rightarrow> idD u = i"
    using update_present by blast
qed

section \<open>Connections\<close>













section \<open>Sharing\<close>

lemma share_failure:
  "isl (fst (share body newId now st)) \<Longrightarrow> snd (share body newId now st) = st"
  by (auto simp: share_def Let_def split: field.splits list.splits if_splits)

lemma share_forbidden:
  assumes "insertSharedDepositSchema body"
    and "\<not> list_ex (\<lambda>c. Val (userId c) = senderIdS body \<and>
                        Val (connectedUserId c) = receiverIdS body \<and>
                        statusC c = ''accepted'') (connections st)"
  shows "share body newId now st = (Inl (Forbidden ''Not connected to this user''), st)"
proof -
  from assms(1) obtain s r c where f: "senderIdS body = Val s" "receiverIdS body = Val r"
    "contentS body = Val c" and nn: "statusS body \<noteq> Null"
    by (auto simp: insertSharedDepositSchema_def split: field.splits)
  from assms(2) f have "accepted_connections s r st = []"
    using accepted_connections_nonempty [of s r st] by simp
  with f nn show ?thesis by (simp add: share_def)
qed

lemma share_invalid:
  "\<not> insertSharedDepositSchema body \<Longrightarrow>
   share body newId now st = (Inl (BadRequest ''Invalid shared deposit data''), st)"
  by (auto simp: share_def insertSharedDepositSchema_def split: field.splits)

text \<open>
  C7. When no accepted connection row leads from the body's sender to its receiver,
  \<open>share\<close> fails and the store is unchanged; for a body that \<open>insertSharedDepositSchema\<close>
  accepts the failure is Forbidden (a body it refuses is answered 400 before the
  connection is looked for). When such a row exists and the body is accepted, the shared
  deposit is appended, from that sender to that receiver. No failure changes the store.
\<close>

theorem share_requires_connection:
  "(\<not> list_ex (\<lambda>c. Val (userId c) = senderIdS body \<and> Val (connectedUserId c) = receiverIdS body \<and>
                   statusC c = ''accepted'') (connections st) \<longrightarrow>
      isl (fst (share body newId now st)) \<and> snd (share body newId now st) = st \<and>
      (insertSharedDepositSchema body \<longrightarrow>
         fst (share body newId now st) = Inl (Forbidden ''Not connected to this user''))) \<and>
   (insertSharedDepositSchema body \<and>
    list_ex (\<lambda>c. Val (userId c) = senderIdS body \<and> Val (connectedUserId c) = receiverIdS body \<and>
                 statusC c = ''accepted'') (connections st) \<longrightarrow>
      (case share body newId now st of
         (Inl e, st') \<Rightarrow> False
       | (Inr sd, st') \<Rightarrow>
           Val (senderId sd) = senderIdS body \<and> Val (receiverId sd) = receiverIdS body \<and>
           st' = st\<lparr>sharedDeposits := sharedDeposits st @ [sd]\<rparr>)) \<and>
   (isl (fst (share body newId now st)) \<longrightarrow> snd (share body newId now st) = st)"
proof (intro conjI impI)
  assume no: "\<not> list_ex (\<lambda>c. Val (userId c) = senderIdS body \<and>
      Val (connectedUserId c) = receiverIdS body \<and> statusC c = ''accepted'') (connections st)"
  show a: "isl (fst (share body newId now st))"
  proof (cases "insertSharedDepositSchema body")
    case True
    from share_forbidden [OF True no] show ?thesis by simp
  next
    case False
    from share_invalid [OF False] show ?thesis by simp
  qed
  from a show "snd (share body newId now st) = st" by (rule share_failure)
  assume "insertSharedDepositSchema body"
  from share_forbidden [OF this no]
  show "fst (share body newId now st) = Inl (Forbidden ''Not connected to this user'')" by simp
next
  assume h: "insertSharedDepositSchema body \<and>
    list_ex (\<lambda>c. Val (userId c) = senderIdS body \<and> Val (connectedUserId c) = receiverIdS body \<and>
                 statusC c = ''accepted'') (connections st)"
  then have "case share body newId now st of
           (Inl e, st') \<Rightarrow> False
         | (Inr sd, st') \<Rightarrow>
             status sd = 0 \<and> idD sd = newId \<and>
             Val (senderId sd) = senderIdS body \<and> Val (receiverId sd) = receiverIdS body \<and>
             st' = st\<lparr>sharedDeposits := sharedDeposits st @ [sd]\<rparr>"
    by (intro share_valid) simp_all
  then show "case share body newId now st of
         (Inl e, st') \<Rightarrow> False
       | (Inr sd, st') \<Rightarrow>
           Val (senderId sd) = senderIdS body \<and> Val (receiverId sd) = receiverIdS body \<and>
           st' = st\<lparr>sharedDeposits := sharedDeposits st @ [sd]\<rparr>"
    by (auto split: prod.splits sum.splits)
next
  assume "isl (fst (share body newId now st))"
  then show "snd (share body newId now st) = st" by (rule share_failure)
qed

text \<open>
  C7, at a store with the accepted pair of rows between a and b: a shares with b and the
  shared deposit is created; a shares with c, to whom no row leads, and is answered
  Forbidden with the store unchanged.
\<close>

theorem share_requires_connection_witness:
  "insertSharedDepositSchema
     \<lparr>senderIdS = Val ''a'', receiverIdS = Val ''c'', contentS = Val ''x'', emotionS = Absent,
      mediaUriS = Absent, mediaTypeS = Absent, tagsS = Absent, statusS = Absent\<rparr> \<and>
   share
     \<lparr>senderIdS = Val ''a'', receiverIdS = Val ''c'', contentS = Val ''x'', emotionS = Absent,
      mediaUriS = Absent, mediaTypeS = Absent, tagsS = Absent, statusS = Absent\<rparr> ''s1'' 8
     (empty_db\<lparr>connections :=
     [\<lparr>idC = ''c1'', userId = ''a'', connectedUserId = ''b'', statusC = ''accepted'',
       createdAtC = 7, acceptedAt = Some 7\<rparr>,
      \<lparr>idC = ''c2'', userId = ''b'', connectedUserId = ''a'', statusC = ''accepted'',
       createdAtC = 7, acceptedAt = Some 7\<rparr>]\<rparr>)
   = (Inl (Forbidden ''Not connected to this user''),
      empty_db\<lparr>connections :=
     [\<lparr>idC = ''c1'', userId = ''a'', connectedUserId = ''b'', statusC = ''accepted'',
       createdAtC = 7, acceptedAt = Some 7\<rparr>,
      \<lparr>idC = ''c2'', userId = ''b'', connectedUserId = ''a'', statusC = ''accepted'',
       createdAtC = 7, acceptedAt = Some 7\<rparr>]\<rparr>) \<and>
   insertSharedDepositSchema
     \<lparr>senderIdS = Val ''a'', receiverIdS = Val ''b'', contentS = Val ''x'', emotionS = Absent,
      mediaUriS = Absent, mediaTypeS = Absent, tagsS = Absent, statusS = Absent\<rparr> \<and>
   sharedDeposits (snd (share
     \<lparr>senderIdS = Val ''a'', receiverIdS = Val ''b'', contentS = Val ''x'', emotionS = Absent,
      mediaUriS = Absent, mediaTypeS = Absent, tagsS = Absent, statusS = Absent\<rparr> ''s1'' 8
     (empty_db\<lparr>connections :=
     [\<lparr>idC = ''c1'', userId = ''a'', connectedUserId = ''b'', statusC = ''accepted'',
       createdAtC = 7, acceptedAt = Some 7\<rparr>,
      \<lparr>idC = ''c2'', userId = ''b'', connectedUserId = ''a'', statusC = ''accepted'',
       createdAtC = 7, acceptedAt = Some 7\<rparr>]\<rparr>)))
   = [\<lparr>idD = ''s1'', content = ''x'', emotion = None, mediaUri = None, mediaType = None,
       tags = Some [], lastSurfacedAt = None, status = 0, createdAt = 8,
       senderId = ''a'', receiverId = ''b''\<rparr>]"
  using share_requires_connection
    [where body = "\<lparr>senderIdS = Val ''a'', receiverIdS = Val ''c'', contentS = Val ''x'',
      emotionS = Absent, mediaUriS = Absent, mediaTypeS = Absent, tagsS = Absent,
      statusS = Absent\<rparr>" and newId = "''s1''" and now = 8
       and st = "empty_db\<lparr>connections :=
     [\<lparr>idC = ''c1'', userId = ''a'', connectedUserId = ''b'', statusC = ''accepted'',
       createdAtC = 7, acceptedAt = Some 7\<rparr>,
      \<lparr>idC = ''c2'', userId = ''b'', connectedUserId = ''a'', statusC = ''accepted'',
       createdAtC = 7, acceptedAt = Some 7\<rparr>]\<rparr>"]
    share_requires_connection
    [where body = "\<lparr>senderIdS = Val ''a'', receiverIdS = Val ''b'', contentS = Val ''x'',
      emotionS = Absent, mediaUriS = Absent, mediaTypeS = Absent, tagsS = Absent,
      statusS = Absent\<rparr>" and newId = "''s1''" and now = 8
       and st = "empty_db\<lparr>connections :=
     [\<lparr>idC = ''c1'', userId = ''a'', connectedUserId = ''b'', statusC = ''accepted'',
       createdAtC = 7, acceptedAt = Some 7\<rparr>,
      \<lparr>idC = ''c2'', userId = ''b'', connectedUserId = ''a'', statusC = ''accepted'',
       createdAtC = 7, acceptedAt = Some 7\<rparr>]\<rparr>"]
  by (simp add: share_def insertSharedDepositSchema_def accepted_connections_def empty_db_def
      Let_def)

section \<open>Sender summary\<close>

lemma senderSummary_no_deposits:
  assumes "\<not> list_ex (\<lambda>d. senderId d = uid) (sharedDeposits st)"
  shows "senderSummary uid weeksBack now st =
           Inr \<lparr>totalUses = 0, helpfulUses = 0, weeks = weeksBack\<rparr>"
proof -
  from assms have "filter (\<lambda>d. senderId d = uid) (sharedDeposits st) = []"
    by (simp add: filter_empty_conv list_ex_iff)
  then show ?thesis by (simp add: senderSummary_def)
qed

lemma senderSummary_with_deposits:
  assumes "list_ex (\<lambda>d. senderId d = uid) (sharedDeposits st)"
  shows "senderSummary uid weeksBack now st = Inl (ServerError ''Failed to get summary'')"
proof -
  from assms have "filter (\<lambda>d. senderId d = uid) (sharedDeposits st) \<noteq> []"
    by (simp add: filter_empty_conv list_ex_iff)
  then show ?thesis by (simp add: senderSummary_def usages_query_def)
qed

text \<open>
  C8. The claim says that the summary counts the usage rows of the user's shared deposits
  since the cutoff. The handler tries to, but its query is refused whenever the user has
  sent a shared deposit. At the ledger of one shared deposit of a with three uses, at day
  20 and two weeks back, the contract counts two uses, one of them helpful, and the
  handler answers 500. Only user b, who sent nothing, gets the answer the claim
  describes: zero, zero and the weeks asked for.
\<close>

theorem senderSummary_refused_query:
  "length (uses_since
     (empty_db\<lparr>sharedDeposits :=
        [\<lparr>idD = ''s1'', content = ''x'', emotion = None, mediaUri = None, mediaType = None,
          tags = Some [], lastSurfacedAt = None, status = 30, createdAt = 0,
          senderId = ''a'', receiverId = ''b''\<rparr>],
        sharedDepositUsage :=
        [\<lparr>idU = ''u1'', sharedDepositId = ''s1'', usedAt = 1 * 86400000, helpful = Some True\<rparr>,
         \<lparr>idU = ''u2'', sharedDepositId = ''s1'', usedAt = 6 * 86400000, helpful = Some True\<rparr>,
         \<lparr>idU = ''u3'', sharedDepositId = ''s1'', usedAt = 9 * 86400000, helpful = None\<rparr>]\<rparr>) ''a'' (20 * 86400000 - 2 * 7 * 86400000)) = 2 \<and>
   length (filter (\<lambda>u. helpful u = Some True) (uses_since
     (empty_db\<lparr>sharedDeposits :=
        [\<lparr>idD = ''s1'', content = ''x'', emotion = None, mediaUri = None, mediaType = None,
          tags = Some [], lastSurfacedAt = None, status = 30, createdAt = 0,
          senderId = ''a'', receiverId = ''b''\<rparr>],
        sharedDepositUsage :=
        [\<lparr>idU = ''u1'', sharedDepositId = ''s1'', usedAt = 1 * 86400000, helpful = Some True\<rparr>,
         \<lparr>idU = ''u2'', sharedDepositId = ''s1'', usedAt = 6 * 86400000, helpful = Some True\<rparr>,
         \<lparr>idU = ''u3'', sharedDepositId = ''s1'', usedAt = 9 * 86400000, helpful = None\<rparr>]\<rparr>) ''a'' (20 * 86400000 - 2 * 7 * 86400000))) = 1 \<and>
   senderSummary ''a'' 2 (20 * 86400000)
     (empty_db\<lparr>sharedDeposits :=
        [\<lparr>idD = ''s1'', content = ''x'', emotion = None, mediaUri = None, mediaType = None,
          tags = Some [], lastSurfacedAt = None, status = 30, createdAt = 0,
          senderId = ''a'', receiverId = ''b''\<rparr>],
        sharedDepositUsage :=
        [\<lparr>idU = ''u1'', sharedDepositId = ''s1'', usedAt = 1 * 86400000, helpful = Some True\<rparr>,
         \<lparr>idU = ''u2'', sharedDepositId = ''s1'', usedAt = 6 * 86400000, helpful = Some True\<rparr>,
         \<lparr>idU = ''u3'', sharedDepositId = ''s1'', usedAt = 9 * 86400000, helpful = None\<rparr>]\<rparr>)
   = Inl (ServerError ''Failed to get summary'') \<and>
   senderSummary ''b'' 2 (20 * 86400000)
     (empty_db\<lparr>sharedDeposits :=
        [\<lparr>idD = ''s1'', content = ''x'', emotion = None, mediaUri = None, mediaType = None,
          tags = Some [], lastSurfacedAt = None, status = 30, createdAt = 0,
          senderId = ''a'', receiverId = ''b''\<rparr>],
        sharedDepositUsage :=
        [\<lparr>idU = ''u1'', sharedDepositId = ''s1'', usedAt = 1 * 86400000, helpful = Some True\<rparr>,
         \<lparr>idU = ''u2'', sharedDepositId = ''s1'', usedAt = 6 * 86400000, helpful = Some True\<rparr>,
         \<lparr>idU = ''u3'', sharedDepositId = ''s1'', usedAt = 9 * 86400000, helpful = None\<rparr>]\<rparr>)
   = Inr \<lparr>totalUses = 0, helpfulUses = 0, weeks = 2\<rparr>"
  by (simp add: senderSummary_def usages_query_def uses_since_def sent_by_def empty_db_def)

text \<open>
  C10. The claim says that a negative \<open>weeks\<close> is used as it is and, the cutoff then lying
  after now, gives zero and zero on a ledger with no use after now. With \<open>weeks = -3\<close>
  (\<^verbatim>\<open>parseInt("-3") || 2\<close> is -3) at day 20 the cutoff is day 41, no use of the ledger is
  later than day 20 and the contract counts none; but a has sent a shared deposit, the
  query is refused as for C8, and the handler answers 500.
\<close>

theorem negative_weeks_refused_query:
  "(20 * 86400000 :: int) < 20 * 86400000 - (- 3) * 7 * 86400000 \<and>
   list_all (\<lambda>u. usedAt u \<le> 20 * 86400000) (sharedDepositUsage
     (empty_db\<lparr>sharedDeposits :=
        [\<lparr>idD = ''s1'', content = ''x'', emotion = None, mediaUri = None, mediaType = None,
          tags = Some [], lastSurfacedAt = None, status = 30, createdAt = 0,
          senderId = ''a'', receiverId = ''b''\<rparr>],
        sharedDepositUsage :=
        [\<lparr>idU = ''u1'', sharedDepositId = ''s1'', usedAt = 1 * 86400000, helpful = Some True\<rparr>,
         \<lparr>idU = ''u2'', sharedDepositId = ''s1'', usedAt = 6 * 86400000, helpful = Some True\<rparr>,
         \<lparr>idU = ''u3'', sharedDepositId = ''s1'', usedAt = 9 * 86400000, helpful = None\<rparr>]\<rparr>)) \<and>
   uses_since
     (empty_db\<lparr>sharedDeposits :=
        [\<lparr>idD = ''s1'', content = ''x'', emotion = None, mediaUri = None, mediaType = None,
          tags = Some [], lastSurfacedAt = None, status = 30, createdAt = 0,
          senderId = ''a'', receiverId = ''b''\<rparr>],
        sharedDepositUsage :=
        [\<lparr>idU = ''u1'', sharedDepositId = ''s1'', usedAt = 1 * 86400000, helpful = Some True\<rparr>,
         \<lparr>idU = ''u2'', sharedDepositId = ''s1'', usedAt = 6 * 86400000, helpful = Some True\<rparr>,
         \<lparr>idU = ''u3'', sharedDepositId = ''s1'', usedAt = 9 * 86400000, helpful = None\<rparr>]\<rparr>) ''a'' (20 * 86400000 - (- 3) * 7 * 86400000) = [] \<and>
   senderSummary ''a'' (- 3) (20 * 86400000)
     (empty_db\<lparr>sharedDeposits :=
        [\<lparr>idD = ''s1'', content = ''x'', emotion = None, mediaUri = None, mediaType = None,
          tags = Some [], lastSurfacedAt = None, status = 30, createdAt = 0,
          senderId = ''a'', receiverId = ''b''\<rparr>],
        sharedDepositUsage :=
        [\<lparr>idU = ''u1'', sharedDepositId = ''s1'', usedAt = 1 * 86400000, helpful = Some True\<rparr>,
         \<lparr>idU = ''u2'', sharedDepositId = ''s1'', usedAt = 6 * 86400000, helpful = Some True\<rparr>,
         \<lparr>idU = ''u3'', sharedDepositId = ''s1'', usedAt = 9 * 86400000, helpful = None\<rparr>]\<rparr>)
   = Inl (ServerError ''Failed to get summary'')"
  by (simp add: senderSummary_def usages_query_def uses_since_def sent_by_def empty_db_def)

end
